theory Spec2Isabelle
  imports Complex_Main "HOL-Library.Word" "HOL-Library.Log_Nat"
begin

section \<open>Yield comparator (src/src/yieldMonitor.ts)\<close>

text \<open>
  The \<open>YieldComparison\<close> interface. The protocol tags are the string literals of the
  source (\<open>'aave' | 'compound' | 'equal'\<close> and \<open>'aave' | 'compound' | 'none'\<close>), and
  \<open>currentProtocol !== betterProtocol\<close> is a comparison of strings. The rates are the
  integer-valued numbers that the rate adapters return from \<open>Math.floor\<close> (basis
  points); balances are bigints.
\<close>

record YieldComparison =
  timestamp :: int
  aaveAPY :: int
  compoundAPY :: int
  difference :: int
  betterProtocol :: string
  shouldMove :: bool
  currentProtocol :: string

text \<open>
  \<open>compareYields\<close> from its four reads on: \<open>aaveAPY\<close>, \<open>compoundAPY\<close>,
  \<open>aaveBalance\<close>, \<open>compoundBalance\<close> are the results of \<open>Promise.all\<close>,
  \<open>minYieldDifference\<close> is the integer parsed from \<open>MIN_YIELD_DIFFERENCE\<close> (default
  50) and \<open>now\<close> is \<open>Date.now()\<close>. The check of the environment that precedes the
  reads (the function throws when \<open>RPC_URL\<close>, \<open>TOKEN_ADDRESS\<close> or
  \<open>SAFE_WALLET_ADDRESS\<close> is missing) has passed; the console output is left out.
\<close>

definition compareYields :: "int \<Rightarrow> int \<Rightarrow> int \<Rightarrow> int \<Rightarrow> int \<Rightarrow> int \<Rightarrow> YieldComparison" where
  "compareYields now aaveAPY' compoundAPY' aaveBalance compoundBalance minYieldDifference =
     (let currentProtocol' =
            (if aaveBalance > 0 then ''aave''
             else if compoundBalance > 0 then ''compound''
             else ''none'');
          difference' = \<bar>aaveAPY' - compoundAPY'\<bar>;
          betterProtocol' =
            (if aaveAPY' > compoundAPY' then ''aave''
             else if compoundAPY' > aaveAPY' then ''compound''
             else ''equal'');
          shouldMove' =
            (difference' \<ge> minYieldDifference \<and>
             betterProtocol' \<noteq> ''equal'' \<and>
             currentProtocol' \<noteq> ''none'' \<and>
             currentProtocol' \<noteq> betterProtocol')
      in \<lparr> timestamp = now,
           aaveAPY = aaveAPY',
           compoundAPY = compoundAPY',
           difference = difference',
           betterProtocol = betterProtocol',
           shouldMove = shouldMove',
           currentProtocol = currentProtocol' \<rparr>)"


section \<open>Call plan builder (src/src/triggerx-yield-optimizer.ts)\<close>

text \<open>
  The contract ABIs of \<open>contracts/aave.ts\<close> and \<open>contracts/compound.ts\<close>, as the
  human-readable fragments the source lists.
\<close>

definition AAVE_POOL_ABI :: "string list" where
  "AAVE_POOL_ABI =
     [''function supply(address asset, uint256 amount, address onBehalfOf, uint16 referralCode)'',
      ''function withdraw(address asset, uint256 amount, address to) returns (uint256)'']"

definition ERC20_ABI :: "string list" where
  "ERC20_ABI =
     [''function approve(address spender, uint256 amount) returns (bool)'',
      ''function allowance(address owner, address spender) view returns (uint256)'',
      ''function balanceOf(address account) view returns (uint256)'',
      ''function transfer(address to, uint256 amount) returns (bool)'',
      ''function symbol() view returns (string)'',
      ''function decimals() view returns (uint8)'']"

definition COMPOUND_COMET_ABI :: "string list" where
  "COMPOUND_COMET_ABI =
     [''function supply(address asset, uint256 amount)'',
      ''function withdraw(address asset, uint256 amount)'',
      ''function balanceOf(address account) view returns (uint256)'',
      ''function getSupplyRate(uint256 utilization) view returns (uint64)'',
      ''function getUtilization() view returns (uint256)'',
      ''function totalSupply() view returns (uint256)'',
      ''function totalBorrow() view returns (uint256)'',
      ''function baseToken() view returns (address)'',
      ''function userBasic(address) view returns (int104 principal, uint64 baseTrackingIndex, uint64 baseTrackingAccrued, uint256 assetsIn, uint256 _reserved)'']"

definition SAFE_ABI :: "string list" where
  "SAFE_ABI = [''function nonce() view returns (uint256)'']"

text \<open>
  \<open>new ethers.Interface(abi).encodeFunctionData(name, args)\<close> is a call into the
  ethers library. Its result is kept as the term of the call: the ABI, the function
  name and the argument values as the source passes them (all of them strings).
\<close>

datatype calldata = FunctionData (fn_abi: "string list") (fn_name: string) (fn_args: "string list")

definition encodeFunctionData :: "string list \<Rightarrow> string \<Rightarrow> string list \<Rightarrow> calldata" where
  "encodeFunctionData abi name args = FunctionData abi name args"

text \<open>\<open>BigInt.prototype.toString()\<close>: the decimal digits, with a minus sign below zero.\<close>

definition digit :: "nat \<Rightarrow> char" where
  "digit n = ''0123456789'' ! n"

function decimal :: "nat \<Rightarrow> string" where
  "decimal n = (if n < 10 then [digit n] else decimal (n div 10) @ [digit (n mod 10)])"
  by pat_completeness auto
termination
  by (relation "measure id") auto

declare decimal.simps [simp del]

definition bigint_toString :: "int \<Rightarrow> string" where
  "bigint_toString i = (if i < 0 then CHR ''-'' # decimal (nat (- i)) else decimal (nat i))"

text \<open>Reading a string of decimal digits back, as the ABI encoder does with an amount.\<close>

definition digit_value :: "char \<Rightarrow> nat" where
  "digit_value ch = of_char ch - 48"

definition parse_decimal :: "string \<Rightarrow> nat" where
  "parse_decimal s = foldl (\<lambda>acc ch. acc * 10 + digit_value ch) 0 s"

text \<open>The transaction objects \<open>{ to, value, data }\<close> handed to the wallet.\<close>

record SafeTransaction =
  tx_to :: string
  tx_value :: string
  tx_data :: calldata

record YieldOptimizerConfig =
  safeAddress :: string
  tokenAddress :: string
  minYieldDifference :: int
  checkInterval :: int
  jobDuration :: int
  monitorApiUrl :: string

text \<open>
  \<open>AAVE_POOL_ADDRESS\<close> and \<open>COMPOUND_COMET_ADDRESS\<close> are module constants read from
  the environment with a network default; they are parameters here.
\<close>

record ProtocolAddresses =
  AAVE_POOL_ADDRESS :: string
  COMPOUND_COMET_ADDRESS :: string

definition generatePlaceholderTransaction :: "string \<Rightarrow> SafeTransaction list" where
  "generatePlaceholderTransaction safeAddress' =
     (let data = encodeFunctionData SAFE_ABI ''nonce'' []
      in [\<lparr> tx_to = safeAddress', tx_value = ''0'', tx_data = data \<rparr>])"

text \<open>
  \<open>generateRebalanceTransactions\<close>. It first awaits \<open>compareYields()\<close>, whose reads
  are \<open>aaveAPY\<close>, \<open>compoundAPY\<close>, \<open>aaveBalance0\<close>, \<open>compoundBalance0\<close> and the
  threshold \<open>minDiff\<close>; it then reads the two balances again (\<open>aaveBalance\<close>,
  \<open>compoundBalance\<close>), which may differ from the first read. The transaction list is
  built by the three \<open>push\<close> steps of the source; steps 1 and 3 have no final
  \<open>else\<close>, so a tag that is neither \<open>'aave'\<close> nor \<open>'compound'\<close> pushes nothing.
\<close>

definition generateRebalanceTransactions ::
  "ProtocolAddresses \<Rightarrow> YieldOptimizerConfig \<Rightarrow> int \<Rightarrow> int \<Rightarrow> int \<Rightarrow> int \<Rightarrow> int \<Rightarrow> int \<Rightarrow> int \<Rightarrow> int
     \<Rightarrow> SafeTransaction list" where
  "generateRebalanceTransactions addrs config now aaveAPY' compoundAPY' aaveBalance0 compoundBalance0
       minDiff aaveBalance compoundBalance =
     (let yieldData = compareYields now aaveAPY' compoundAPY' aaveBalance0 compoundBalance0 minDiff
      in if \<not> shouldMove yieldData then []
         else
           let transactions0 = [];
               amountToMove =
                 (if currentProtocol yieldData = ''aave'' then aaveBalance else compoundBalance)
           in if amountToMove = 0 then []
              else
                let transactions1 =
                      (if currentProtocol yieldData = ''aave'' then
                         transactions0 @
                           [\<lparr> tx_to = AAVE_POOL_ADDRESS addrs, tx_value = ''0'',
                              tx_data = encodeFunctionData AAVE_POOL_ABI ''withdraw''
                                [tokenAddress config, bigint_toString amountToMove,
                                 safeAddress config] \<rparr>]
                       else if currentProtocol yieldData = ''compound'' then
                         transactions0 @
                           [\<lparr> tx_to = COMPOUND_COMET_ADDRESS addrs, tx_value = ''0'',
                              tx_data = encodeFunctionData COMPOUND_COMET_ABI ''withdraw''
                                [tokenAddress config, bigint_toString amountToMove] \<rparr>]
                       else transactions0);
                    approveAddress =
                      (if betterProtocol yieldData = ''aave'' then AAVE_POOL_ADDRESS addrs
                       else COMPOUND_COMET_ADDRESS addrs);
                    transactions2 =
                      transactions1 @
                        [\<lparr> tx_to = tokenAddress config, tx_value = ''0'',
                           tx_data = encodeFunctionData ERC20_ABI ''approve''
                             [approveAddress, bigint_toString amountToMove] \<rparr>];
                    transactions3 =
                      (if betterProtocol yieldData = ''aave'' then
                         transactions2 @
                           [\<lparr> tx_to = AAVE_POOL_ADDRESS addrs, tx_value = ''0'',
                              tx_data = encodeFunctionData AAVE_POOL_ABI ''supply''
                                [tokenAddress config, bigint_toString amountToMove,
                                 safeAddress config, ''0''] \<rparr>]
                       else if betterProtocol yieldData = ''compound'' then
                         transactions2 @
                           [\<lparr> tx_to = COMPOUND_COMET_ADDRESS addrs, tx_value = ''0'',
                              tx_data = encodeFunctionData COMPOUND_COMET_ABI ''supply''
                                [tokenAddress config, bigint_toString amountToMove] \<rparr>]
                       else transactions2)
                in transactions3)"



section \<open>Numbers of the rate conversion\<close>

text \<open>
  The rate adapters compute in JavaScript numbers (IEEE 754 binary64). A finite
  double is modelled by the rational it denotes, and every operation rounds its exact
  result to the nearest double, ties to even: \<open>fl x\<close> keeps 53 significant bits of
  \<open>x\<close>. The exponent range is not modelled: the rates are \<open>uint256\<close> and
  \<open>uint64\<close> values, so every number below is 0 or lies between \<open>1e-27\<close> and
  \<open>2^256\<close>, far from overflow and from the subnormal range.
\<close>

definition pow2 :: "int \<Rightarrow> rat" where
  "pow2 k = (if k \<ge> 0 then 2 ^ nat k else 1 / 2 ^ nat (- k))"

text \<open>\<open>ilog2 x\<close> is the exponent \<open>e\<close> with \<open>2^e \<le> x < 2^(e+1)\<close>, for \<open>x > 0\<close>.\<close>

definition ilog2 :: "rat \<Rightarrow> int" where
  "ilog2 x = (let (p, q) = quotient_of x; k = bitlen p - bitlen q
              in if pow2 k \<le> x then k else k - 1)"

definition round_half_even :: "rat \<Rightarrow> int" where
  "round_half_even x =
     (let f = \<lfloor>x\<rfloor>; r = x - of_int f
      in if r < 1 / 2 then f else if r > 1 / 2 then f + 1 else if even f then f else f + 1)"

definition fl :: "rat \<Rightarrow> rat" where
  "fl x = (if x = 0 then 0
           else let a = \<bar>x\<bar>; u = pow2 (ilog2 a - 52)
                in sgn x * of_int (round_half_even (a / u)) * u)"

text \<open>\<open>Number(bigint)\<close>, \<open>/\<close>, \<open>*\<close> and \<open>Math.floor\<close> on numbers.\<close>

definition Number :: "int \<Rightarrow> rat" where
  "Number n = fl (of_int n)"

definition fdiv :: "rat \<Rightarrow> rat \<Rightarrow> rat" where
  "fdiv a b = fl (a / b)"

definition fmul :: "rat \<Rightarrow> rat \<Rightarrow> rat" where
  "fmul a b = fl (a * b)"

definition Math_floor :: "rat \<Rightarrow> int" where
  "Math_floor x = \<lfloor>x\<rfloor>"

section \<open>Rate adapters and position readers (contracts/aave.ts, contracts/compound.ts)\<close>

text \<open>
  An exception caught by the adapters, with the three fields their handlers inspect:
  \<open>error.code\<close>, \<open>error.value\<close> and \<open>error.message\<close> (each may be undefined).
\<close>

record js_error =
  err_code :: "string option"
  err_value :: "string option"
  err_message :: "string option"

text \<open>\<open>String.prototype.includes\<close>.\<close>

primrec str_includes :: "string \<Rightarrow> string \<Rightarrow> bool" where
  "str_includes [] sub = (sub = [])"
| "str_includes (c # cs) sub = (take (length sub) (c # cs) = sub \<or> str_includes cs sub)"

text \<open>
  The test each handler applies:
  \<open>error.code === 'BAD_DATA' || error.value === '0x' || error.message?.includes('could not decode')\<close>.
\<close>

definition unsupportedReserve :: "js_error \<Rightarrow> bool" where
  "unsupportedReserve error =
     (err_code error = Some ''BAD_DATA'' \<or> err_value error = Some ''0x'' \<or>
      (case err_message error of None \<Rightarrow> False | Some m \<Rightarrow> str_includes m ''could not decode''))"

text \<open>
  What a contract call resolves to. ethers decodes a tuple into an array-like
  \<open>Result\<close> (\<open>Tuple\<close>); the adapters also probe for a plain object with named
  fields (\<open>Named\<close>, in \<open>Object.keys\<close> order) and for a null or undefined value
  (\<open>Nullish\<close>). A missing element or property is \<open>None\<close> (undefined).
\<close>

datatype 'a reply = Nullish | Tuple "'a list" | Named "(string \<times> 'a) list"

definition nth_opt :: "'a list \<Rightarrow> nat \<Rightarrow> 'a option" where
  "nth_opt xs i = (if i < length xs then Some (xs ! i) else None)"

text \<open>Reading a property of null or undefined throws a \<open>TypeError\<close>.\<close>

definition typeError :: js_error where
  "typeError = \<lparr> err_code = None, err_value = None,
                  err_message = Some ''Cannot read properties of undefined'' \<rparr>"

text \<open>\<open>a || b\<close> on possibly undefined values, for a given notion of truthiness.\<close>

definition js_or :: "('a \<Rightarrow> bool) \<Rightarrow> 'a option \<Rightarrow> 'a option \<Rightarrow> 'a option" where
  "js_or truthy a b = (case a of Some v \<Rightarrow> if truthy v then a else b | None \<Rightarrow> b)"

definition truthy_string :: "string \<Rightarrow> bool" where
  "truthy_string s = (s \<noteq> [])"

definition truthy_bigint :: "256 word \<Rightarrow> bool" where
  "truthy_bigint n = (n \<noteq> 0)"

definition ZeroAddress :: string where
  "ZeroAddress = ''0x0000000000000000000000000000000000000000''"

text \<open>
  The read-only chain connection: the outcome of each contract call the adapters
  await, \<open>Inl\<close> an exception and \<open>Inr\<close> the decoded value. Rates and balances are
  \<open>uint256\<close> (the supply rate \<open>uint64\<close>), as the ABIs declare them.
\<close>

record chain =
  dataProvider_getReserveTokensAddresses :: "string \<Rightarrow> js_error + string reply"
  dataProvider_getReserveData :: "string \<Rightarrow> js_error + (256 word) reply"
  erc20_balanceOf :: "string \<Rightarrow> string \<Rightarrow> js_error + 256 word"
  provider_getCode :: "string \<Rightarrow> js_error + string"
  comet_getUtilization :: "js_error + 256 word"
  comet_getSupplyRate :: "256 word \<Rightarrow> js_error + 64 word"
  comet_balanceOf :: "string \<Rightarrow> js_error + 256 word"

text \<open>
  How a block of statements completes: it falls through with the value it bound, it
  returns from the function, or it throws.
\<close>

datatype ('r, 'v) completion = Normal 'v | Return 'r | Throw js_error

text \<open>
  \<open>getAaveAPY\<close>, first inner \<open>try\<close> (the reserve check): an unsupported-reserve
  error returns 0, any other error is thrown again.
\<close>

definition getAaveAPY_reserveCheck :: "chain \<Rightarrow> string \<Rightarrow> (int, unit) completion" where
  "getAaveAPY_reserveCheck c tokenAddress' =
     (let block =
            (case dataProvider_getReserveTokensAddresses c tokenAddress' of
               Inl error \<Rightarrow> Throw error
             | Inr reserveTokens \<Rightarrow>
                 (case reserveTokens of
                    Nullish \<Rightarrow> Throw typeError
                  | Tuple xs \<Rightarrow>
                      (let aTokenAddress = nth_opt xs 0
                       in if aTokenAddress = None \<or> aTokenAddress = Some [] \<or>
                             aTokenAddress = Some ZeroAddress
                          then Return 0 else Normal ())
                  | Named kvs \<Rightarrow>
                      (let aTokenAddress =
                             js_or truthy_string (map_of kvs ''aTokenAddress'') (map_of kvs ''0'')
                       in if aTokenAddress = None \<or> aTokenAddress = Some [] \<or>
                             aTokenAddress = Some ZeroAddress
                          then Return 0 else Normal ())))
      in case block of
           Throw error \<Rightarrow> if unsupportedReserve error then Return 0 else Throw error
         | other \<Rightarrow> other)"

text \<open>\<open>getAaveAPY\<close>, second inner \<open>try\<close>: reading the reserve data.\<close>

definition getAaveAPY_reserveData :: "chain \<Rightarrow> string \<Rightarrow> (int, (256 word) reply) completion" where
  "getAaveAPY_reserveData c tokenAddress' =
     (case dataProvider_getReserveData c tokenAddress' of
        Inl error \<Rightarrow> if unsupportedReserve error then Return 0 else Throw error
      | Inr reserveData \<Rightarrow> Normal reserveData)"

text \<open>
  The liquidity rate of the reply: index 5 of an array, else
  \<open>data.liquidityRate || data[5]\<close>.
\<close>

definition liquidityRateOf :: "(256 word) reply \<Rightarrow> js_error + (256 word) option" where
  "liquidityRateOf reserveData =
     (case reserveData of
        Nullish \<Rightarrow> Inl typeError
      | Tuple xs \<Rightarrow> Inr (nth_opt xs 5)
      | Named kvs \<Rightarrow> Inr (js_or truthy_bigint (map_of kvs ''liquidityRate'') (map_of kvs ''5'')))"

definition getAaveAPY :: "chain \<Rightarrow> string \<Rightarrow> js_error + int" where
  "getAaveAPY c tokenAddress' =
     (let block =
            (case getAaveAPY_reserveCheck c tokenAddress' of
               Throw error \<Rightarrow> Inl error
             | Return r \<Rightarrow> Inr r
             | Normal _ \<Rightarrow>
                 (case getAaveAPY_reserveData c tokenAddress' of
                    Throw error \<Rightarrow> Inl error
                  | Return r \<Rightarrow> Inr r
                  | Normal reserveData \<Rightarrow>
                      (case liquidityRateOf reserveData of
                         Inl error \<Rightarrow> Inl error
                       | Inr None \<Rightarrow> Inr 0
                       | Inr (Some liquidityRate) \<Rightarrow>
                           if liquidityRate = 0 then Inr 0
                           else
                             let apyBasisPoints =
                                   Math_floor
                                     (fmul (fdiv (Number (uint liquidityRate)) (fl (10 ^ 27))) 10000)
                             in Inr apyBasisPoints)))
      in case block of
           Inl error \<Rightarrow> if unsupportedReserve error then Inr 0 else Inr 0
         | Inr r \<Rightarrow> Inr r)"

text \<open>
  \<open>getCompoundAPY\<close>. \<open>secondsPerYear\<close> is \<open>365.25 * 24 * 60 * 60\<close>, evaluated in
  doubles from left to right; \<open>cometAddress\<close> is the module constant
  \<open>COMPOUND_COMET_ADDRESS\<close>. A failed utilization read returns 0 in its own handler,
  any other failure in the outer one.
\<close>

definition secondsPerYear :: rat where
  "secondsPerYear = fmul (fmul (fmul (fl (1461 / 4)) 24) 60) 60"

definition getCompoundAPY :: "string \<Rightarrow> chain \<Rightarrow> js_error + int" where
  "getCompoundAPY cometAddress c =
     (let block =
            (case provider_getCode c cometAddress of
               Inl error \<Rightarrow> Inl error
             | Inr code \<Rightarrow>
                 if code = ''0x'' then Inr 0
                 else
                   (case comet_getUtilization c of
                      Inl error \<Rightarrow> Inr 0
                    | Inr utilization \<Rightarrow>
                        (case comet_getSupplyRate c utilization of
                           Inl error \<Rightarrow> Inl error
                         | Inr supplyRate \<Rightarrow>
                             let ratePerSecond = fdiv (Number (uint supplyRate)) (fl (10 ^ 18));
                                 apy = fmul ratePerSecond secondsPerYear;
                                 apyBasisPoints = Math_floor (fmul apy 10000)
                             in Inr apyBasisPoints)))
      in case block of
           Inl error \<Rightarrow> Inr 0
         | Inr r \<Rightarrow> Inr r)"




text \<open>
  Two chain connections used as concrete inputs below: one on which every read fails
  with a network error, and one on which the asset is listed, with the given liquidity
  rate (index 5 of the reserve data) and supply rate.
\<close>

definition networkError :: js_error where
  "networkError = \<lparr> err_code = Some ''NETWORK_ERROR'', err_value = None,
                     err_message = Some ''connection refused'' \<rparr>"

definition offlineChain :: chain where
  "offlineChain =
     \<lparr> dataProvider_getReserveTokensAddresses = (\<lambda>_. Inl networkError),
       dataProvider_getReserveData = (\<lambda>_. Inl networkError),
       erc20_balanceOf = (\<lambda>_ _. Inl networkError),
       provider_getCode = (\<lambda>_. Inl networkError),
       comet_getUtilization = Inl networkError,
       comet_getSupplyRate = (\<lambda>_. Inl networkError),
       comet_balanceOf = (\<lambda>_. Inl networkError) \<rparr>"

definition sampleChain :: "256 word \<Rightarrow> 64 word \<Rightarrow> chain" where
  "sampleChain liquidityRate supplyRate =
     \<lparr> dataProvider_getReserveTokensAddresses = (\<lambda>_. Inr (Tuple [''0xa1'', ''0xa2'', ''0xa3''])),
       dataProvider_getReserveData =
         (\<lambda>_. Inr (Tuple [0, 0, 0, 0, 0, liquidityRate, 0, 0, 0, 0, 0, 0])),
       erc20_balanceOf = (\<lambda>_ _. Inr 0),
       provider_getCode = (\<lambda>_. Inr ''0x60806040''),
       comet_getUtilization = Inr 0,
       comet_getSupplyRate = (\<lambda>_. Inr supplyRate),
       comet_balanceOf = (\<lambda>_. Inr 0) \<rparr>"


section \<open>Atomic batch encoder (foundry/script/SafeModuleAaveSupply.s.sol)\<close>

type_synonym byte = "8 word"
type_synonym address = "160 word"
type_synonym uint256 = "256 word"

text \<open>
  \<open>abi.encodePacked\<close> writes an integer type in its own width, most significant byte
  first: \<open>be_bytes n v\<close> are the \<open>n\<close> low-order bytes of \<open>v\<close>, big-endian, and
  \<open>be_nat\<close> reads a big-endian byte string back.
\<close>

fun be_bytes :: "nat \<Rightarrow> nat \<Rightarrow> byte list" where
  "be_bytes 0 v = []"
| "be_bytes (Suc n) v = be_bytes n (v div 256) @ [of_nat (v mod 256)]"

definition be_nat :: "byte list \<Rightarrow> nat" where
  "be_nat bs = foldl (\<lambda>acc b. acc * 256 + unat b) 0 bs"

definition encodePacked_uint8 :: "8 word \<Rightarrow> byte list" where
  "encodePacked_uint8 x = [x]"

definition encodePacked_address :: "address \<Rightarrow> byte list" where
  "encodePacked_address a = be_bytes 20 (unat a)"

definition encodePacked_uint256 :: "uint256 \<Rightarrow> byte list" where
  "encodePacked_uint256 v = be_bytes 32 (unat v)"




text \<open>The constants of the script.\<close>

definition CALL :: "8 word" where
  "CALL = 0"










text \<open>The \<open>Call\<close> of the data model: target, native value, payload.\<close>

record Call =
  target :: address
  call_value :: uint256
  payload :: "byte list"

text \<open>
  Modelled from the spec: the encoder for an arbitrary ordered call list (section 4.5,
  \<open>encodeBatch\<close>), which the sources have only as the two-call instance
  \<open>_buildAaveSupplyMultiSend\<close>. \<open>encodeCall\<close> packs one call with the very
  \<open>abi.encodePacked(uint8(CALL), to, uint256(value), uint256(data.length), data)\<close>
  that builds \<open>tx1\<close> and \<open>tx2\<close> there, and \<open>encodeBatch\<close> concatenates the calls
  as \<open>abi.encodePacked(tx1, tx2)\<close> does.
\<close>

definition encodeCall :: "Call \<Rightarrow> byte list" where
  "encodeCall c =
     encodePacked_uint8 CALL @ encodePacked_address (target c) @
     encodePacked_uint256 (call_value c) @
     encodePacked_uint256 (of_nat (length (payload c))) @ payload c"

primrec encodeBatch :: "Call list \<Rightarrow> byte list" where
  "encodeBatch [] = []"
| "encodeBatch (c # cs) = encodeCall c @ encodeBatch cs"




text \<open>
  Modelled from the spec: the matching parser of a packed batch (section 8). The
  batch executor that consumes the bytes is an external contract; the parser below
  reads the same layout: per call a tag byte, 20 bytes of target, 32 of value, 32 of
  length and that many payload bytes, moving on by \<open>0x55\<close> plus the length. It
  rejects a truncated batch and any tag other than the direct call.
\<close>

function decodeBatch :: "byte list \<Rightarrow> Call list option" where
  "decodeBatch bs =
     (if bs = [] then Some []
      else if length bs < 85 then None
      else
        let operation = hd bs;
            to = (of_nat (be_nat (take 20 (drop 1 bs))) :: address);
            val = (of_nat (be_nat (take 32 (drop 21 bs))) :: uint256);
            dataLength = be_nat (take 32 (drop 53 bs));
            rest = drop 85 bs
        in if operation \<noteq> CALL then None
           else if length rest < dataLength then None
           else (case decodeBatch (drop dataLength rest) of
                   None \<Rightarrow> None
                 | Some cs \<Rightarrow>
                     Some (\<lparr> target = to, call_value = val, payload = take dataLength rest \<rparr> # cs)))"
  by pat_completeness auto
termination
  by (relation "measure length") auto

declare decodeBatch.simps [simp del]

text \<open>A batch of two calls used as a concrete input below.\<close>

definition sampleCalls :: "Call list" where
  "sampleCalls =
     [\<lparr> target = 0xaf88d065e77c8cC2239327C5EDb3A432268e5831, call_value = 0,
        payload = [0x09, 0x5e, 0xa7, 0xb3] \<rparr>,
      \<lparr> target = 0x794a61358D6845594F94dc1DB02A252b5b4814aD, call_value = 258,
        payload = [] \<rparr>]"

section \<open>Properties of the comparator\<close>




text \<open>
  C7. For non-negative balances, \<open>currentProtocol\<close> is \<open>'aave'\<close> exactly when the Aave
  balance is positive, \<open>'compound'\<close> exactly when the Aave balance is zero and the
  Compound balance is positive, and \<open>'none'\<close> exactly when both are zero. A wallet
  holding funds in both protocols is classified as being in Aave.
\<close>

theorem C7_currentProtocol_classification:
  assumes "0 \<le> pa" and "0 \<le> pb"
  shows "(let d = compareYields now ra rb pa pb th in
           (currentProtocol d = ''aave'' \<longleftrightarrow> pa > 0) \<and>
           (currentProtocol d = ''compound'' \<longleftrightarrow> pa = 0 \<and> pb > 0) \<and>
           (currentProtocol d = ''none'' \<longleftrightarrow> pa = 0 \<and> pb = 0) \<and>
           (pa > 0 \<and> pb > 0 \<longrightarrow> currentProtocol d = ''aave''))"
  using assms by (auto simp add: compareYields_def Let_def)

theorem C7_currentProtocol_classification_witness:
  "(0::int) \<le> 7 \<and> (0::int) \<le> 9 \<and> currentProtocol (compareYields 0 230 280 7 9 50) = ''aave''"
  using C7_currentProtocol_classification [of 7 9 0 230 280 50]
  by (simp add: Let_def)




section \<open>Properties of the call plan builder\<close>

lemma digit_value_digit: "n < 10 \<Longrightarrow> digit_value (digit n) = n"
proof -
  assume "n < 10"
  then have "n \<in> {0, 1, 2, 3, 4, 5, 6, 7, 8, 9}" by auto
  then show ?thesis
    by (auto simp add: digit_value_def digit_def)
qed

lemma parse_decimal_snoc: "parse_decimal (s @ [ch]) = parse_decimal s * 10 + digit_value ch"
  by (simp add: parse_decimal_def)

lemma parse_decimal_decimal: "parse_decimal (decimal n) = n"
proof (induction n rule: decimal.induct)
  case (1 n)
  show ?case
  proof (cases "n < 10")
    case True
    then show ?thesis
      by (subst decimal.simps) (simp add: parse_decimal_def digit_value_digit)
  next
    case False
    with "1.IH" have "parse_decimal (decimal (n div 10)) = n div 10" by simp
    with False show ?thesis
      by (subst decimal.simps) (simp add: parse_decimal_snoc digit_value_digit)
  qed
qed

text \<open>
  The decimal string of a non-negative amount reads back as that amount, so equal
  amount arguments are equal amounts.
\<close>

lemma parse_decimal_toString: "0 \<le> i \<Longrightarrow> int (parse_decimal (bigint_toString i)) = i"
  by (simp add: bigint_toString_def parse_decimal_decimal)







text \<open>
  C10. Every transaction of a rebalance plan, and the placeholder transaction, carries
  the value \<open>'0'\<close>: no generated call transfers native currency.
\<close>

theorem C10_value_zero:
  "(\<forall>tx \<in> set (generateRebalanceTransactions addrs cfg now ra rb pa0 pb0 th ba bb).
      tx_value tx = ''0'') \<and>
   (\<forall>tx \<in> set (generatePlaceholderTransaction safe). tx_value tx = ''0'')"
  by (simp add: generateRebalanceTransactions_def generatePlaceholderTransaction_def Let_def)

theorem C10_value_zero_witness:
  "map tx_value
     (generateRebalanceTransactions
        \<lparr> AAVE_POOL_ADDRESS = ''0xA'', COMPOUND_COMET_ADDRESS = ''0xC'' \<rparr>
        \<lparr> safeAddress = ''0x5'', tokenAddress = ''0x7'', minYieldDifference = 50,
          checkInterval = 60, jobDuration = 300, monitorApiUrl = ''u'' \<rparr>
        0 300 200 0 42 50 0 42) = [''0'', ''0'', ''0''] \<and>
   map tx_value (generatePlaceholderTransaction ''0x5'') = [''0'']"
  using C10_value_zero [of
     "\<lparr> AAVE_POOL_ADDRESS = ''0xA'', COMPOUND_COMET_ADDRESS = ''0xC'' \<rparr>"
     "\<lparr> safeAddress = ''0x5'', tokenAddress = ''0x7'', minYieldDifference = 50,
       checkInterval = 60, jobDuration = 300, monitorApiUrl = ''u'' \<rparr>"
     0 300 200 0 42 50 0 42 "''0x5''"]
  by (simp add: generateRebalanceTransactions_def generatePlaceholderTransaction_def
      compareYields_def Let_def)

section \<open>Properties of the adapters: failures\<close>

lemma reserveCheck_failed:
  "dataProvider_getReserveTokensAddresses c tok = Inl e \<Longrightarrow>
   getAaveAPY_reserveCheck c tok = (if unsupportedReserve e then Return 0 else Throw e)"
  by (simp add: getAaveAPY_reserveCheck_def)

lemma reserveCheck_returns_zero:
  "getAaveAPY_reserveCheck c tok = Return r \<Longrightarrow> r = 0"
  by (auto simp add: getAaveAPY_reserveCheck_def Let_def
      split: sum.splits reply.splits completion.splits if_splits)





lemma getAaveAPY_tokens_failed:
  "dataProvider_getReserveTokensAddresses c tok = Inl e \<Longrightarrow> getAaveAPY c tok = Inr 0"
  by (simp add: getAaveAPY_def reserveCheck_failed)

lemma getAaveAPY_data_failed:
  "dataProvider_getReserveData c tok = Inl e \<Longrightarrow> getAaveAPY c tok = Inr 0"
  by (auto simp add: getAaveAPY_def getAaveAPY_reserveData_def
      split: completion.split dest: reserveCheck_returns_zero)

lemma getCompoundAPY_failed:
  "provider_getCode c comet = Inl e \<or> comet_getUtilization c = Inl e \<or>
   (\<exists>u. comet_getUtilization c = Inr u \<and> comet_getSupplyRate c u = Inl e)
   \<Longrightarrow> getCompoundAPY comet c = Inr 0"
  by (auto simp add: getCompoundAPY_def split: sum.split)




lemma networkError_not_unsupported: "\<not> unsupportedReserve networkError"
  by (simp add: unsupportedReserve_def networkError_def)

lemma offlineChain_reads:
  "dataProvider_getReserveTokensAddresses offlineChain tok = Inl networkError"
  "dataProvider_getReserveData offlineChain tok = Inl networkError"
  "erc20_balanceOf offlineChain a user = Inl networkError"
  "provider_getCode offlineChain comet = Inl networkError"
  "comet_getUtilization offlineChain = Inl networkError"
  "comet_getSupplyRate offlineChain u = Inl networkError"
  "comet_balanceOf offlineChain user = Inl networkError"
  by (simp_all add: offlineChain_def)

text \<open>
  C3, as stated, fails: a network error is not an unsupported-reserve condition, yet
  when the reserve-data read fails with it \<open>getAaveAPY\<close> returns the rate 0 and
  throws nothing to its caller.
\<close>

theorem C3_propagation_counterexample:
  "\<not> unsupportedReserve networkError \<and>
   dataProvider_getReserveData offlineChain ''0xT'' = Inl networkError \<and>
   getAaveAPY offlineChain ''0xT'' = Inr 0"
  by (simp add: networkError_not_unsupported offlineChain_reads
      getAaveAPY_data_failed [of offlineChain "''0xT''" networkError])

text \<open>
  C3, amended. Whatever error \<open>e\<close> a read of a rate adapter fails with, an
  unsupported-reserve condition or not, \<open>getAaveAPY\<close> and \<open>getCompoundAPY\<close> recover
  locally and return the rate 0; the failure is not propagated to the caller.
\<close>

theorem C3_read_failures_recovered:
  "(dataProvider_getReserveTokensAddresses c tok = Inl e \<or>
    dataProvider_getReserveData c tok = Inl e
      \<longrightarrow> getAaveAPY c tok = Inr 0 \<and> getAaveAPY c tok \<noteq> Inl e) \<and>
   (provider_getCode c comet = Inl e \<or> comet_getUtilization c = Inl e \<or>
    (\<exists>u. comet_getUtilization c = Inr u \<and> comet_getSupplyRate c u = Inl e)
      \<longrightarrow> getCompoundAPY comet c = Inr 0 \<and> getCompoundAPY comet c \<noteq> Inl e)"
proof (intro conjI impI)
  assume "dataProvider_getReserveTokensAddresses c tok = Inl e \<or>
          dataProvider_getReserveData c tok = Inl e"
  then show a: "getAaveAPY c tok = Inr 0"
    using getAaveAPY_tokens_failed getAaveAPY_data_failed by blast
  then show "getAaveAPY c tok \<noteq> Inl e" by simp
next
  assume "provider_getCode c comet = Inl e \<or> comet_getUtilization c = Inl e \<or>
          (\<exists>u. comet_getUtilization c = Inr u \<and> comet_getSupplyRate c u = Inl e)"
  then show b: "getCompoundAPY comet c = Inr 0"
    by (rule getCompoundAPY_failed)
  then show "getCompoundAPY comet c \<noteq> Inl e" by simp
qed

theorem C3_read_failures_recovered_witness:
  "\<not> unsupportedReserve networkError \<and>
   provider_getCode offlineChain ''0xC'' = Inl networkError \<and>
   getAaveAPY offlineChain ''0xT'' = Inr 0 \<and>
   getCompoundAPY ''0xC'' offlineChain = Inr 0"
  using C3_read_failures_recovered [of offlineChain "''0xT''" networkError "''0xC''"]
  by (simp add: networkError_not_unsupported offlineChain_reads)



section \<open>Properties of the number model\<close>

text \<open>
  \<open>fl\<close> rounds to 53 significant bits: \<open>ilog2\<close> is the binary exponent, the result
  is within half a unit in the last place of its argument, hence within a relative
  error of \<open>2^-53\<close>.
\<close>

lemma pow2_powi: "pow2 k = 2 powi k"
  by (simp add: pow2_def power_int_def field_simps)

lemma pow2_pos [simp]: "0 < pow2 k"
  by (simp add: pow2_powi)

lemma pow2_add: "pow2 (a + b) = pow2 a * pow2 b"
  by (simp add: pow2_powi power_int_add)

lemma pow2_mono: "a \<le> b \<Longrightarrow> pow2 a \<le> pow2 b"
  by (simp add: pow2_powi power_int_increasing)

lemma pow2_nat: "pow2 (int n) = 2 ^ n"
  by (simp add: pow2_def)

lemma round_half_even_error: "\<bar>of_int (round_half_even y) - y\<bar> \<le> 1 / 2"
proof -
  define r where "r = y - of_int \<lfloor>y\<rfloor>"
  have r: "0 \<le> r" "r < 1"
    unfolding r_def by linarith+
  have y: "y = of_int \<lfloor>y\<rfloor> + r"
    by (simp add: r_def)
  have "round_half_even y = \<lfloor>y\<rfloor> \<and> r \<le> 1 / 2 \<or>
        round_half_even y = \<lfloor>y\<rfloor> + 1 \<and> 1 / 2 \<le> r"
    unfolding round_half_even_def Let_def r_def [symmetric] by auto
  then show ?thesis
  proof
    assume a: "round_half_even y = \<lfloor>y\<rfloor> \<and> r \<le> 1 / 2"
    then have "of_int (round_half_even y) - y = - r"
      using y by simp
    with a r show ?thesis by simp
  next
    assume a: "round_half_even y = \<lfloor>y\<rfloor> + 1 \<and> 1 / 2 \<le> r"
    then have "of_int (round_half_even y) - y = 1 - r"
      using y by simp
    with a r show ?thesis by simp
  qed
qed

lemma round_half_even_nonneg: "0 \<le> y \<Longrightarrow> 0 \<le> round_half_even y"
  unfolding round_half_even_def Let_def by auto

lemma fl_nonneg:
  assumes "0 \<le> x"
  shows "0 \<le> fl x"
proof (cases "x = 0")
  case True
  then show ?thesis by (simp add: fl_def)
next
  case False
  with assms have x: "0 < x" by simp
  define u where "u = pow2 (ilog2 x - 52)"
  have "0 < u" by (simp add: u_def)
  with x have "0 \<le> x / u" by (simp add: less_imp_le)
  then have "0 \<le> round_half_even (x / u)" by (rule round_half_even_nonneg)
  with \<open>0 < u\<close> have "0 \<le> (of_int (round_half_even (x / u)) :: rat) * u"
    by (intro mult_nonneg_nonneg) simp_all
  moreover have "fl x = of_int (round_half_even (x / u)) * u"
    using x by (simp add: fl_def Let_def u_def)
  ultimately show ?thesis by simp
qed

lemma bitlen_bounds_rat:
  assumes "0 < p"
  shows "pow2 (bitlen p - 1) \<le> of_int p" and "of_int p < pow2 (bitlen p)"
proof -
  from assms have b: "1 \<le> bitlen p"
    by (simp add: bitlen_alt_def)
  from bitlen_bounds [OF assms]
  have lo: "2 ^ nat (bitlen p - 1) \<le> p" and hi: "p < 2 ^ nat (bitlen p)" by auto
  have "pow2 (bitlen p - 1) = 2 ^ nat (bitlen p - 1)"
    using b by (simp add: pow2_def)
  also have "\<dots> = of_int (2 ^ nat (bitlen p - 1))" by simp
  also have "\<dots> \<le> of_int p" using lo by (simp only: of_int_le_iff)
  finally show "pow2 (bitlen p - 1) \<le> of_int p" .
  have "of_int p < (of_int (2 ^ nat (bitlen p)) :: rat)" using hi by (simp only: of_int_less_iff)
  also have "\<dots> = pow2 (bitlen p)" using b by (simp add: pow2_def)
  finally show "of_int p < pow2 (bitlen p)" .
qed

lemma ilog2_bounds:
  assumes "0 < x"
  shows "pow2 (ilog2 x) \<le> x \<and> x < pow2 (ilog2 x + 1)"
proof -
  obtain p q where pq: "quotient_of x = (p, q)" by (cases "quotient_of x")
  then have q: "0 < q" and x: "x = of_int p / of_int q"
    using quotient_of_denom_pos quotient_of_div by auto
  with assms have p: "0 < p"
    by (simp add: zero_less_divide_iff)
  define k where "k = bitlen p - bitlen q"
  have plo: "pow2 (bitlen p - 1) \<le> of_int p" and phi: "of_int p < pow2 (bitlen p)"
    using bitlen_bounds_rat [OF p] by auto
  have qlo: "pow2 (bitlen q - 1) \<le> of_int q" and qhi: "of_int q < pow2 (bitlen q)"
    using bitlen_bounds_rat [OF q] by auto
  have qpos: "0 < (of_int q :: rat)" using q by simp
  have "pow2 (k - 1) * of_int q < pow2 (k - 1) * pow2 (bitlen q)"
    using qhi by simp
  also have "\<dots> = pow2 (bitlen p - 1)"
    by (simp add: k_def pow2_add [symmetric])
  also have "\<dots> \<le> of_int p" by (rule plo)
  finally have lo: "pow2 (k - 1) < x"
    using qpos by (simp add: x pos_less_divide_eq)
  have "of_int p < pow2 (bitlen p)" by (rule phi)
  also have "\<dots> = pow2 (k + 1) * pow2 (bitlen q - 1)"
    by (simp add: k_def pow2_add [symmetric])
  also have "\<dots> \<le> pow2 (k + 1) * of_int q"
    using qlo by simp
  finally have hi: "x < pow2 (k + 1)"
    using qpos by (simp add: x pos_divide_less_eq)
  show ?thesis
  proof (cases "pow2 k \<le> x")
    case True
    then have "ilog2 x = k" by (simp add: ilog2_def pq k_def)
    with True hi show ?thesis by simp
  next
    case False
    then have "ilog2 x = k - 1" by (simp add: ilog2_def pq k_def)
    with False lo show ?thesis by simp
  qed
qed


lemma fl_error:
  assumes "x \<noteq> 0"
  shows "\<bar>fl x - x\<bar> \<le> pow2 (ilog2 \<bar>x\<bar> - 53)"
proof -
  define a where "a = \<bar>x\<bar>"
  define u where "u = pow2 (ilog2 a - 52)"
  define m where "m = round_half_even (a / u)"
  have u: "0 < u" by (simp add: u_def)
  have fl: "fl x = sgn x * (of_int m * u)"
    using assms by (simp add: fl_def Let_def a_def u_def m_def mult.assoc)
  have x: "x = sgn x * a"
    by (simp add: a_def mult_sgn_abs)
  have "fl x - x = sgn x * (of_int m * u - a)"
    by (subst (2) x) (simp add: fl right_diff_distrib)
  then have "\<bar>fl x - x\<bar> = \<bar>of_int m * u - a\<bar>"
    using assms by (simp add: abs_mult abs_sgn_eq)
  also have "of_int m * u - a = (of_int m - a / u) * u"
    using u by (simp add: left_diff_distrib)
  also have "\<bar>(of_int m - a / u) * u\<bar> = \<bar>of_int m - a / u\<bar> * u"
    using u by (simp add: abs_mult)
  also have "\<dots> \<le> 1 / 2 * u"
    using u round_half_even_error [of "a / u"] by (simp add: m_def)
  also have "1 / 2 * u = pow2 (ilog2 a - 53)"
  proof -
    have "pow2 (ilog2 a - 52) = pow2 (ilog2 a - 53) * pow2 1"
      by (simp add: pow2_add [symmetric])
    then show ?thesis by (simp add: u_def pow2_def)
  qed
  finally show ?thesis by (simp add: a_def)
qed

lemma fl_relative_error: "\<bar>fl x - x\<bar> \<le> \<bar>x\<bar> / 2 ^ 53"
proof (cases "x = 0")
  case True
  then show ?thesis by (simp add: fl_def)
next
  case False
  then have a: "0 < \<bar>x\<bar>" by simp
  have "\<bar>fl x - x\<bar> \<le> pow2 (ilog2 \<bar>x\<bar> - 53)"
    using False by (rule fl_error)
  also have "\<dots> = pow2 (ilog2 \<bar>x\<bar>) * pow2 (- 53)"
    by (simp add: pow2_add [symmetric])
  also have "\<dots> \<le> \<bar>x\<bar> * pow2 (- 53)"
    using ilog2_bounds [OF a] by simp
  also have "\<dots> = \<bar>x\<bar> / 2 ^ 53"
    by (simp add: pow2_def)
  finally show ?thesis .
qed

lemma fl_between:
  assumes "0 \<le> lo" and "lo \<le> z" and "z \<le> hi"
  shows "lo * (1 - 1 / 2 ^ 53) \<le> fl z \<and> fl z \<le> hi * (1 + 1 / 2 ^ 53)"
proof -
  from assms have z: "0 \<le> z" by simp
  with fl_relative_error [of z] have e: "\<bar>fl z - z\<bar> \<le> z / 2 ^ 53" by simp
  have "lo * (1 - 1 / 2 ^ 53) \<le> z * (1 - 1 / 2 ^ 53)"
    using assms by (intro mult_right_mono) simp_all
  moreover have "z * (1 + 1 / 2 ^ 53) \<le> hi * (1 + 1 / 2 ^ 53)"
    using assms by (intro mult_right_mono) simp_all
  moreover from e have "z - z / 2 ^ 53 \<le> fl z" "fl z \<le> z + z / 2 ^ 53"
    by linarith+
  then have "z * (1 - 1 / 2 ^ 53) \<le> fl z" "fl z \<le> z * (1 + 1 / 2 ^ 53)"
    by (simp_all add: algebra_simps)
  ultimately show ?thesis by linarith
qed


section \<open>Properties of the adapters: the rate conversion\<close>

lemma sample_reserveCheck: "getAaveAPY_reserveCheck (sampleChain r s) tok = Normal ()"
  by (simp add: getAaveAPY_reserveCheck_def sampleChain_def nth_opt_def ZeroAddress_def Let_def)

lemma sample_reserveData:
  "getAaveAPY_reserveData (sampleChain r s) tok = Normal (Tuple [0, 0, 0, 0, 0, r, 0, 0, 0, 0, 0, 0])"
  by (simp add: getAaveAPY_reserveData_def sampleChain_def)

lemma sample_liquidityRate:
  "liquidityRateOf (Tuple [0, 0, 0, 0, 0, r, 0, 0, 0, 0, 0, 0]) = Inr (Some r)"
  by (simp add: liquidityRateOf_def nth_opt_def)

lemma getAaveAPY_sample:
  "r \<noteq> 0 \<Longrightarrow>
   getAaveAPY (sampleChain r s) tok =
     Inr (Math_floor (fmul (fdiv (Number (uint r)) (fl (10 ^ 27))) 10000))"
  by (simp add: getAaveAPY_def sample_reserveCheck sample_reserveData sample_liquidityRate)

lemma getCompoundAPY_sample:
  "getCompoundAPY comet (sampleChain r s) =
     Inr (Math_floor (fmul (fmul (fdiv (Number (uint s)) (fl (10 ^ 18))) secondsPerYear) 10000))"
  by (simp add: getCompoundAPY_def sampleChain_def)

lemma fl_1e27_literal: "fl 1000000000000000000000000000 = 1000000000000000013287555072"
  by code_simp

lemma fl_1e27: "fl (10 ^ 27) = 1000000000000000013287555072"
  using fl_1e27_literal by simp

lemma fl_1e18_literal: "fl 1000000000000000000 = 1000000000000000000"
  by code_simp

lemma secondsPerYear_value: "secondsPerYear = 31557600"
  by code_simp

lemma floor_within_one:
  fixes r x :: rat
  assumes "x - 1 < r" and "r < x + 1"
  shows "\<bar>\<lfloor>r\<rfloor> - \<lfloor>x\<rfloor>\<bar> \<le> 1"
proof -
  have "\<lfloor>r\<rfloor> \<le> \<lfloor>x + 1\<rfloor>" using assms by (intro floor_mono) simp
  moreover have "\<lfloor>x - 1\<rfloor> \<le> \<lfloor>r\<rfloor>" using assms by (intro floor_mono) simp
  ultimately show ?thesis by simp
qed

lemma aave_conversion_within_one:
  assumes "0 \<le> R" and "R < 2 ^ 126"
  shows "\<bar>Math_floor (fmul (fdiv (Number R) (fl (10 ^ 27))) 10000) -
          \<lfloor>(of_int R :: rat) / 10 ^ 27 * 10000\<rfloor>\<bar> \<le> 1"
proof -
  define z :: rat where "z = of_int R"
  define c :: rat where "c = 1000000000000000013287555072"
  define d :: rat where "d = 1 - 1 / 2 ^ 53"
  define u :: rat where "u = 1 + 1 / 2 ^ 53"
  define l2 h2 where "l2 = z * d / c" and "h2 = z * u / c"
  define l4 h4 where "l4 = l2 * d * 10000" and "h4 = h2 * u * 10000"
  have z: "0 \<le> z" "z < 2 ^ 126"
    using assms by (simp_all add: z_def)
  have c: "0 < c" by (simp add: c_def)
  have d: "0 \<le> d" by (simp add: d_def)
  have u: "0 \<le> u" by (simp add: u_def)
  have a: "z * d \<le> Number R \<and> Number R \<le> z * u"
    unfolding Number_def z_def [symmetric] d_def u_def
    using z by (intro fl_between) simp_all
  have l2: "0 \<le> l2" using z c d by (simp add: l2_def)
  have q0: "l2 \<le> Number R / c" "Number R / c \<le> h2"
    using a c by (simp_all add: l2_def h2_def divide_right_mono)
  have q: "l2 * d \<le> fdiv (Number R) c \<and> fdiv (Number R) c \<le> h2 * u"
    unfolding fdiv_def d_def u_def
    using l2 q0 by (intro fl_between)
  have l4: "0 \<le> l4" using l2 d by (simp add: l4_def)
  have r0: "l4 \<le> fdiv (Number R) c * 10000" "fdiv (Number R) c * 10000 \<le> h4"
    using q by (simp_all add: l4_def h4_def)
  have r: "l4 * d \<le> fmul (fdiv (Number R) c) 10000 \<and>
           fmul (fdiv (Number R) c) 10000 \<le> h4 * u"
    unfolding fmul_def d_def u_def
    using l4 r0 by (intro fl_between)
  have klo: "1 / 10 ^ 23 - 1 / 2 ^ 126 \<le> d / c * d * 10000 * d"
    by (simp add: d_def c_def)
  have khi: "u / c * u * 10000 * u \<le> 1 / 10 ^ 23 + 1 / 2 ^ 126"
    by (simp add: u_def c_def)
  have "z * (1 / 10 ^ 23 - 1 / 2 ^ 126) \<le> z * (d / c * d * 10000 * d)"
    using z klo by (intro mult_left_mono) simp_all
  also have "z * (d / c * d * 10000 * d) = l4 * d"
    by (simp add: l4_def l2_def)
  finally have lo: "z / 10 ^ 23 - z / 2 ^ 126 \<le> fmul (fdiv (Number R) c) 10000"
    using r by (simp add: right_diff_distrib)
  have "h4 * u = z * (u / c * u * 10000 * u)"
    by (simp add: h4_def h2_def)
  also have "\<dots> \<le> z * (1 / 10 ^ 23 + 1 / 2 ^ 126)"
    using z khi by (intro mult_left_mono) simp_all
  finally have hi: "fmul (fdiv (Number R) c) 10000 \<le> z / 10 ^ 23 + z / 2 ^ 126"
    using r by (simp add: distrib_left)
  have small: "z / 2 ^ 126 < 1" using z by simp
  have x: "z / 10 ^ 27 * 10000 = z / 10 ^ 23" by simp
  have "\<bar>\<lfloor>fmul (fdiv (Number R) c) 10000\<rfloor> - \<lfloor>z / 10 ^ 27 * 10000\<rfloor>\<bar> \<le> 1"
    unfolding x using lo hi small by (intro floor_within_one) linarith+
  then show ?thesis
    by (simp add: Math_floor_def fl_1e27_literal c_def z_def)
qed


lemma compound_conversion_within_one:
  assumes "0 \<le> S" and "S < 2 ^ 64"
  shows "\<bar>Math_floor (fmul (fmul (fdiv (Number S) (fl (10 ^ 18))) secondsPerYear) 10000) -
          \<lfloor>(of_int S :: rat) / 10 ^ 18 * (1461 / 4 * 86400) * 10000\<rfloor>\<bar> \<le> 1"
proof -
  define z :: rat where "z = of_int S"
  define c :: rat where "c = 1000000000000000000"
  define y :: rat where "y = 31557600"
  define d :: rat where "d = 1 - 1 / 2 ^ 53"
  define u :: rat where "u = 1 + 1 / 2 ^ 53"
  define l2 h2 where "l2 = z * d / c" and "h2 = z * u / c"
  define l3 h3 where "l3 = l2 * d * y" and "h3 = h2 * u * y"
  define l4 h4 where "l4 = l3 * d * 10000" and "h4 = h3 * u * 10000"
  have z: "0 \<le> z" "z < 2 ^ 64"
    using assms by (simp_all add: z_def)
  have c: "0 < c" by (simp add: c_def)
  have y: "0 \<le> y" by (simp add: y_def)
  have d: "0 \<le> d" by (simp add: d_def)
  have u: "0 \<le> u" by (simp add: u_def)
  have a: "z * d \<le> Number S \<and> Number S \<le> z * u"
    unfolding Number_def z_def [symmetric] d_def u_def
    using z by (intro fl_between) simp_all
  have l2: "0 \<le> l2" using z c d by (simp add: l2_def)
  have q0: "l2 \<le> Number S / c" "Number S / c \<le> h2"
    using a c by (simp_all add: l2_def h2_def divide_right_mono)
  have q: "l2 * d \<le> fdiv (Number S) c \<and> fdiv (Number S) c \<le> h2 * u"
    unfolding fdiv_def d_def u_def
    using l2 q0 by (intro fl_between)
  have l3: "0 \<le> l3" using l2 d y by (simp add: l3_def)
  have p0: "l3 \<le> fdiv (Number S) c * y" "fdiv (Number S) c * y \<le> h3"
    using q y by (simp_all add: l3_def h3_def mult_right_mono)
  have p: "l3 * d \<le> fmul (fdiv (Number S) c) y \<and> fmul (fdiv (Number S) c) y \<le> h3 * u"
    using l3 p0 unfolding fmul_def d_def u_def by (intro fl_between)
  have l4: "0 \<le> l4" using l3 d by (simp add: l4_def)
  have r0: "l4 \<le> fmul (fdiv (Number S) c) y * 10000"
           "fmul (fdiv (Number S) c) y * 10000 \<le> h4"
    using p by (simp_all add: l4_def h4_def)
  have r: "l4 * d \<le> fmul (fmul (fdiv (Number S) c) y) 10000 \<and>
           fmul (fmul (fdiv (Number S) c) y) 10000 \<le> h4 * u"
    using l4 r0 unfolding fmul_def d_def u_def by (intro fl_between)
  have klo: "315576 / 10 ^ 12 - 1 / 2 ^ 64 \<le> d / c * d * y * d * 10000 * d"
    by (simp add: d_def c_def y_def)
  have khi: "u / c * u * y * u * 10000 * u \<le> 315576 / 10 ^ 12 + 1 / 2 ^ 64"
    by (simp add: u_def c_def y_def)
  have "z * (315576 / 10 ^ 12 - 1 / 2 ^ 64) \<le> z * (d / c * d * y * d * 10000 * d)"
    using z klo by (intro mult_left_mono) simp_all
  also have "z * (d / c * d * y * d * 10000 * d) = l4 * d"
    by (simp add: l4_def l3_def l2_def)
  finally have lo: "z * (315576 / 10 ^ 12) - z / 2 ^ 64
                      \<le> fmul (fmul (fdiv (Number S) c) y) 10000"
    using r by (simp add: right_diff_distrib)
  have "h4 * u = z * (u / c * u * y * u * 10000 * u)"
    by (simp add: h4_def h3_def h2_def)
  also have "\<dots> \<le> z * (315576 / 10 ^ 12 + 1 / 2 ^ 64)"
    using z khi by (intro mult_left_mono) simp_all
  finally have hi: "fmul (fmul (fdiv (Number S) c) y) 10000
                      \<le> z * (315576 / 10 ^ 12) + z / 2 ^ 64"
    using r by (simp add: distrib_left)
  have small: "z / 2 ^ 64 < 1" using z by simp
  have x: "z / 10 ^ 18 * (1461 / 4 * 86400) * 10000 = z * (315576 / 10 ^ 12)" by simp
  have "\<bar>\<lfloor>fmul (fmul (fdiv (Number S) c) y) 10000\<rfloor> -
         \<lfloor>z / 10 ^ 18 * (1461 / 4 * 86400) * 10000\<rfloor>\<bar> \<le> 1"
    unfolding x using lo hi small by (intro floor_within_one) linarith+
  then show ?thesis
    by (simp add: Math_floor_def fl_1e18_literal secondsPerYear_value c_def y_def z_def)
qed

lemma aave_conversion_nonneg:
  "0 \<le> R \<Longrightarrow> 0 \<le> Math_floor (fmul (fdiv (Number R) (fl (10 ^ 27))) 10000)"
  unfolding Math_floor_def fmul_def fdiv_def Number_def
  by (intro iffD2 [OF zero_le_floor] fl_nonneg mult_nonneg_nonneg divide_nonneg_nonneg) simp_all

lemma compound_conversion_nonneg:
  "0 \<le> S \<Longrightarrow>
   0 \<le> Math_floor (fmul (fmul (fdiv (Number S) (fl (10 ^ 18))) secondsPerYear) 10000)"
  unfolding Math_floor_def fmul_def fdiv_def Number_def secondsPerYear_def
  by (intro iffD2 [OF zero_le_floor] fl_nonneg mult_nonneg_nonneg divide_nonneg_nonneg) simp_all

lemma reserveData_returns_zero:
  "getAaveAPY_reserveData c tok = Return r \<Longrightarrow> r = 0"
  by (auto simp add: getAaveAPY_reserveData_def split: sum.splits if_splits)

lemma getAaveAPY_nonneg:
  assumes "getAaveAPY c tok = Inr v"
  shows "0 \<le> v"
proof -
  have conv: "0 \<le> Math_floor (fmul (fdiv (Number (uint w)) (fl (10 ^ 27))) 10000)"
    for w :: "256 word"
    by (rule aave_conversion_nonneg) simp
  from assms show ?thesis
    using conv
    by (auto simp add: getAaveAPY_def Let_def
        split: completion.splits sum.splits option.splits if_splits
        dest: reserveCheck_returns_zero reserveData_returns_zero)
qed

lemma getCompoundAPY_nonneg:
  assumes "getCompoundAPY comet c = Inr v"
  shows "0 \<le> v"
proof -
  have conv:
    "0 \<le> Math_floor (fmul (fmul (fdiv (Number (uint w)) (fl (10 ^ 18))) secondsPerYear) 10000)"
    for w :: "64 word"
    by (rule compound_conversion_nonneg) simp
  from assms show ?thesis
    using conv
    by (auto simp add: getCompoundAPY_def Let_def split: sum.splits if_splits)
qed

lemma aave_conversion_1bp:
  "Math_floor (fmul (fdiv (Number 100000000000000000000000) (fl (10 ^ 27))) 10000) = 0"
  by code_simp

lemma compound_conversion_sample:
  "Math_floor (fmul (fmul (fdiv (Number 1625000000000) (fl (10 ^ 18))) secondsPerYear) 10000)
     = 512810"
  by code_simp

text \<open>
  C4 at two on-chain rates. A liquidity rate of \<open>1e23\<close> is exactly one basis point
  (\<open>1e23 / 1e27 * 10000 = 1\<close>), but the double-precision evaluation falls just below 1
  and \<open>getAaveAPY\<close> returns 0. A supply rate of \<open>1.625e12\<close> per second is exactly
  512811 basis points a year, and \<open>getCompoundAPY\<close> returns 512810. The adapters do
  return a non-negative integer (\<open>getAaveAPY_nonneg\<close>, \<open>getCompoundAPY_nonneg\<close>),
  and it is within one basis point of the exact floor (\<open>aave_conversion_within_one\<close>
  for liquidity rates below \<open>2^126\<close>, \<open>compound_conversion_within_one\<close> for every
  \<open>uint64\<close> supply rate), but it is not always the exact floor.
\<close>

theorem C4_conversion_rounds_below_floor:
  "getAaveAPY (sampleChain 100000000000000000000000 0) ''0xT'' = Inr 0 \<and>
   \<lfloor>(100000000000000000000000 :: rat) / 10 ^ 27 * 10000\<rfloor> = 1 \<and>
   getCompoundAPY ''0xC'' (sampleChain 0 1625000000000) = Inr 512810 \<and>
   \<lfloor>(1625000000000 :: rat) / 10 ^ 18 * (1461 / 4 * 86400) * 10000\<rfloor> = 512811"
proof (intro conjI)
  have ua: "uint (100000000000000000000000 :: 256 word) = 100000000000000000000000"
    by simp
  have "getAaveAPY (sampleChain 100000000000000000000000 0) ''0xT'' =
          Inr (Math_floor (fmul (fdiv (Number (uint (100000000000000000000000 :: 256 word)))
                 (fl (10 ^ 27))) 10000))"
    by (rule getAaveAPY_sample) simp
  then show "getAaveAPY (sampleChain 100000000000000000000000 0) ''0xT'' = Inr 0"
    unfolding ua aave_conversion_1bp .
  have uc: "uint (1625000000000 :: 64 word) = 1625000000000"
    by simp
  have "getCompoundAPY ''0xC'' (sampleChain 0 1625000000000) =
          Inr (Math_floor (fmul (fmul (fdiv (Number (uint (1625000000000 :: 64 word)))
                 (fl (10 ^ 18))) secondsPerYear) 10000))"
    by (rule getCompoundAPY_sample)
  then show "getCompoundAPY ''0xC'' (sampleChain 0 1625000000000) = Inr 512810"
    unfolding uc compound_conversion_sample .
qed simp_all

section \<open>Properties of the batch encoder\<close>

lemma length_be_bytes [simp]: "length (be_bytes n v) = n"
  by (induction n arbitrary: v) auto

lemma be_nat_snoc: "be_nat (xs @ [b]) = be_nat xs * 256 + unat b"
  by (simp add: be_nat_def)

lemma be_nat_be_bytes: "be_nat (be_bytes n v) = v mod 256 ^ n"
proof (induction n arbitrary: v)
  case 0
  show ?case by (simp add: be_nat_def)
next
  case (Suc n)
  have "unat (of_nat (v mod 256) :: byte) = v mod 256"
    by (simp add: unat_of_nat)
  then have "be_nat (be_bytes (Suc n) v) = (v div 256) mod 256 ^ n * 256 + v mod 256"
    by (simp add: be_nat_snoc Suc.IH)
  also have "\<dots> = v mod 256 ^ Suc n"
    by (simp add: mod_mult2_eq)
  finally show ?case .
qed

lemma be_nat_address: "be_nat (encodePacked_address a) = unat a"
proof -
  have "unat a < 2 ^ 160" using unsigned_less [of a] by simp
  also have "(2::nat) ^ 160 = 256 ^ 20" by simp
  finally show ?thesis by (simp add: encodePacked_address_def be_nat_be_bytes)
qed

lemma be_nat_uint256: "be_nat (encodePacked_uint256 v) = unat v"
proof -
  have "unat v < 2 ^ 256" using unsigned_less [of v] by simp
  also have "(2::nat) ^ 256 = 256 ^ 32" by simp
  finally show ?thesis by (simp add: encodePacked_uint256_def be_nat_be_bytes)
qed

lemma length_packed [simp]:
  "length (encodePacked_address a) = 20"
  "length (encodePacked_uint256 v) = 32"
  by (simp_all add: encodePacked_address_def encodePacked_uint256_def)

lemma unat_length_word: "n < 2 ^ 256 \<Longrightarrow> unat (of_nat n :: uint256) = n"
  by (simp add: unat_of_nat)

lemma encodeCall_parts:
  "encodeCall c @ bs =
     CALL # (encodePacked_address (target c) @ (encodePacked_uint256 (call_value c) @
       (encodePacked_uint256 (of_nat (length (payload c))) @ (payload c @ bs))))"
  by (simp add: encodeCall_def encodePacked_uint8_def)





lemma decodeBatch_encodeCall:
  assumes "length (payload c) < 2 ^ 256"
  shows "decodeBatch (encodeCall c @ bs) =
           (case decodeBatch bs of None \<Rightarrow> None | Some cs \<Rightarrow> Some (c # cs))"
proof -
  have len: "unat (of_nat (length (payload c)) :: uint256) = length (payload c)"
    using assms by (rule unat_length_word)
  show ?thesis
    by (subst decodeBatch.simps)
       (simp add: encodeCall_parts be_nat_address be_nat_uint256 len Let_def
          split: option.split)
qed





text \<open>
  C6. Encoding an ordered call list (payloads shorter than \<open>2^256\<close> bytes) and parsing
  the bytes back yields the original list: targets, values, payloads and order. The
  empty list encodes to the empty byte string.
\<close>

theorem C6_roundtrip:
  assumes "\<forall>c \<in> set calls. length (payload c) < 2 ^ 256"
  shows "decodeBatch (encodeBatch calls) = Some calls \<and> encodeBatch [] = []"
  using assms
proof (induction calls)
  case Nil
  show ?case by (simp add: decodeBatch.simps)
next
  case (Cons c cs)
  then show ?case by (simp add: decodeBatch_encodeCall)
qed

theorem C6_roundtrip_witness:
  "decodeBatch (encodeBatch sampleCalls) = Some sampleCalls \<and> length sampleCalls = 2"
proof -
  have "\<forall>c \<in> set sampleCalls. length (payload c) < 2 ^ 256"
    by (simp add: sampleCalls_def)
  from C6_roundtrip [OF this] show ?thesis
    by (simp add: sampleCalls_def)
qed

end
